theory Spec2Isabelle
  imports Complex_Main
begin

section \<open>Expired-listings worker: CSV normalizer, urgency scorer, skip-trace client\<close>

text \<open>
  A shallow embedding of \<^verbatim>\<open>src/index.js\<close>. JavaScript strings are modelled as
  \<^typ>\<open>string\<close>; a \<^typ>\<open>char\<close> is read as the code unit of the same number
  (U+0000 to U+00FF). JavaScript numbers are modelled by exact integers and rationals:
  every number the scorer adds is a multiple of one half, and decimal numerals of up to
  fifteen digits are exact as doubles. A missing property (\<^verbatim>\<open>undefined\<close>) and the
  number \<^verbatim>\<open>NaN\<close> are the value \<^term>\<open>None\<close> of an option type.
\<close>

subsection \<open>String primitives of the host language\<close>

definition code :: "char \<Rightarrow> nat" where
  "code c = of_char c"

text \<open>White space and line terminators of ECMAScript below U+0100: TAB, LF, VT, FF, CR,
  SPACE and NO-BREAK SPACE. They are what \<^verbatim>\<open>trim\<close>, \<^verbatim>\<open>\s\<close> and \<^verbatim>\<open>parseInt\<close> skip.\<close>

definition isSpace :: "char \<Rightarrow> bool" where
  "isSpace c = (code c \<in> {9, 10, 11, 12, 13, 32, 160})"

definition trimStart :: "string \<Rightarrow> string" where
  "trimStart s = dropWhile isSpace s"

definition trim :: "string \<Rightarrow> string" where
  "trim s = rev (dropWhile isSpace (rev (dropWhile isSpace s)))"

definition dquote :: char where
  "dquote = CHR 0x22"

definition comma :: char where
  "comma = CHR '',''"

definition newline :: char where
  "newline = CHR 0x0A"

text \<open>\<^verbatim>\<open>s.split(sep)\<close> for a one-character separator: n separators give n + 1 pieces.\<close>

fun splitOn :: "char \<Rightarrow> string \<Rightarrow> string list" where
  "splitOn sep [] = [[]]"
| "splitOn sep (c # cs) =
     (if c = sep then [] # splitOn sep cs
      else (case splitOn sep cs of p # ps \<Rightarrow> (c # p) # ps | [] \<Rightarrow> [[c]]))"

text \<open>\<^verbatim>\<open>s.replace(/^"|"$/g, "")\<close>: a quote at the start is removed, then a quote at the
  end of what is left.\<close>

definition stripQuotes :: "string \<Rightarrow> string" where
  "stripQuotes s =
     (let s1 = (case s of c # cs \<Rightarrow> if c = dquote then cs else s | [] \<Rightarrow> [])
      in if s1 \<noteq> [] \<and> last s1 = dquote then butlast s1 else s1)"

text \<open>\<^verbatim>\<open>s.toLowerCase()\<close> on code units below U+0100: A to Z, and the Latin-1 capitals
  U+00C0 to U+00DE without the multiplication sign U+00D7.\<close>

definition lowerChar :: "char \<Rightarrow> char" where
  "lowerChar c =
     (let n = code c
      in if (65 \<le> n \<and> n \<le> 90) \<or> (192 \<le> n \<and> n \<le> 222 \<and> n \<noteq> 215)
         then char_of (n + 32) else c)"

definition toLowerCase :: "string \<Rightarrow> string" where
  "toLowerCase s = map lowerChar s"

text \<open>\<^verbatim>\<open>s.includes(t)\<close>: t occurs in s as a contiguous block; the empty string occurs
  in every string.\<close>

fun startsWith :: "string \<Rightarrow> string \<Rightarrow> bool" where
  "startsWith s [] = True"
| "startsWith [] (t # ts) = False"
| "startsWith (c # cs) (t # ts) = (c = t \<and> startsWith cs ts)"

fun includes' :: "string \<Rightarrow> string \<Rightarrow> bool" where
  "includes' [] t = (t = [])"
| "includes' (c # cs) t = (startsWith (c # cs) t \<or> includes' cs t)"

subsection \<open>parseInt\<close>

text \<open>
  \<^verbatim>\<open>parseInt(s)\<close> with no radix: leading white space is skipped, one sign is read, a
  prefix 0x or 0X selects radix 16, and the longest run of digits of the radix is the
  value. No digit at all gives \<^verbatim>\<open>NaN\<close>, here \<^term>\<open>None\<close>.
\<close>

definition digitValue :: "char \<Rightarrow> nat option" where
  "digitValue c =
     (let n = code c
      in if 48 \<le> n \<and> n \<le> 57 then Some (n - 48)
         else if 97 \<le> n \<and> n \<le> 122 then Some (n - 87)
         else if 65 \<le> n \<and> n \<le> 90 then Some (n - 55)
         else None)"

definition isDigitOf :: "nat \<Rightarrow> char \<Rightarrow> bool" where
  "isDigitOf radix c = (case digitValue c of Some d \<Rightarrow> d < radix | None \<Rightarrow> False)"

definition digitsValue :: "nat \<Rightarrow> string \<Rightarrow> int" where
  "digitsValue radix ds = foldl (\<lambda>acc c. acc * int radix + int (the (digitValue c))) 0 ds"

definition parseInt :: "string \<Rightarrow> int option" where
  "parseInt inputString =
     (let s = trimStart inputString;
          sign = (if s \<noteq> [] \<and> hd s = CHR ''-'' then - 1 else 1 :: int);
          s = (if s \<noteq> [] \<and> (hd s = CHR ''+'' \<or> hd s = CHR ''-'') then tl s else s);
          hex = (take 2 s = ''0x'' \<or> take 2 s = ''0X'');
          radix = (if hex then 16 else 10);
          s = (if hex then drop 2 s else s);
          z = takeWhile (isDigitOf radix) s
      in if z = [] then None else Some (sign * digitsValue radix z))"

text \<open>\<^verbatim>\<open>parseInt(s) || d\<close>: \<^verbatim>\<open>NaN\<close> and zero are falsy, so both give d.\<close>

definition parseIntOr :: "string \<Rightarrow> int \<Rightarrow> int" where
  "parseIntOr s d = (case parseInt s of None \<Rightarrow> d | Some n \<Rightarrow> if n = 0 then d else n)"

subsection \<open>Listing records\<close>

text \<open>
  The object \<^verbatim>\<open>normalized\<close> built by \<^verbatim>\<open>parseCSV\<close>. The last three fields are the
  properties attached later in the pipeline (\<^verbatim>\<open>urgencyScore\<close> and \<^verbatim>\<open>csvFilename\<close> by
  the orchestrator, the four owner properties by the skip-trace client); \<^term>\<open>None\<close>
  is a property the object does not have.
\<close>

record owner_fields =
  ownerName :: string
  ownerPhone :: string
  ownerEmail :: string
  ownerMailingAddress :: string

record listing =
  address :: string
  city :: string
  zip' :: string
  state :: string
  price :: string
  originalListDate :: string
  expiredDate :: string
  daysOnMarket :: string
  cumulativeDaysOnMarket :: string
  bedrooms :: string
  bathrooms :: string
  sqft :: string
  yearBuilt :: string
  listingAgent :: string
  listingOffice :: string
  mlsNumber :: string
  propertyType :: string
  status :: string
  urgencyScore :: "rat option"
  csvFilename :: "string option"
  owner :: "owner_fields option"

subsection \<open>Urgency scoring rubric\<close>

text \<open>
  The clock: \<^verbatim>\<open>Date.now()\<close> in milliseconds and \<^verbatim>\<open>new Date().getFullYear()\<close>. The
  parser behind \<^verbatim>\<open>new Date(string)\<close> is a parameter: it gives the time value in
  milliseconds, or \<^term>\<open>None\<close> for an invalid date, whose \<^verbatim>\<open>getTime()\<close> is \<^verbatim>\<open>NaN\<close>.
\<close>

record clock =
  now :: int
  fullYear :: int

type_synonym date_parser = "string \<Rightarrow> int option"

text \<open>\<^verbatim>\<open>listing.price?.replace(/[,$]/g, "")\<close>\<close>

definition stripCommaDollar :: "string \<Rightarrow> string" where
  "stripCommaDollar s = filter (\<lambda>c. c \<noteq> comma \<and> c \<noteq> CHR ''$'') s"

definition parsedDom :: "listing \<Rightarrow> int" where
  "parsedDom l = parseIntOr (daysOnMarket l) 0"

definition parsedCdom :: "listing \<Rightarrow> int" where
  "parsedCdom l = parseIntOr (cumulativeDaysOnMarket l) 0"

definition parsedPrice :: "listing \<Rightarrow> int" where
  "parsedPrice l = parseIntOr (stripCommaDollar (price l)) 0"

text \<open>Line 229 and 230: an empty string is falsy and gives 999; an invalid date is an
  object, hence truthy, and its time value \<^verbatim>\<open>NaN\<close> goes through the subtraction, the
  division and \<^verbatim>\<open>Math.floor\<close>.\<close>

definition daysSinceExpired :: "date_parser \<Rightarrow> clock \<Rightarrow> listing \<Rightarrow> int option" where
  "daysSinceExpired parseDate clk l =
     (if expiredDate l = [] then Some 999
      else (case parseDate (expiredDate l) of
              None \<Rightarrow> None
            | Some t \<Rightarrow> Some ((now clk - t) div (1000 * 60 * 60 * 24))))"

text \<open>Factor 1, lines 234 to 242.\<close>

definition motivationFactor :: "int \<Rightarrow> rat" where
  "motivationFactor dom' =
     (if dom' \<ge> 180 then 2
      else if dom' \<ge> 90 then 3 / 2
      else if dom' \<ge> 45 then 1
      else 1 / 2)"

text \<open>Factor 2, lines 246 to 254. Every comparison with \<^verbatim>\<open>NaN\<close> is false.\<close>

definition freshnessFactor :: "int option \<Rightarrow> rat" where
  "freshnessFactor d =
     (case d of
        None \<Rightarrow> 0
      | Some days \<Rightarrow>
          if days \<le> 3 then 2
          else if days \<le> 7 then 3 / 2
          else if days \<le> 14 then 1
          else if days \<le> 30 then 1 / 2
          else 0)"

text \<open>Factor 3, lines 259 to 267.\<close>

definition repeatFailureFactor :: "int \<Rightarrow> int \<Rightarrow> rat" where
  "repeatFailureFactor cdom dom' =
     (if of_int cdom > (of_int dom' :: rat) * 2 then 2
      else if of_int cdom > (of_int dom' :: rat) * (3 / 2) then 3 / 2
      else if cdom > dom' then 1
      else 1 / 2)"

text \<open>Factor 4, lines 271 to 279.\<close>

definition priceFactor :: "int \<Rightarrow> rat" where
  "priceFactor p =
     (if p > 0 \<and> p < 150000 then 2
      else if p \<ge> 150000 \<and> p < 250000 then 3 / 2
      else if p \<ge> 250000 \<and> p < 400000 then 1
      else if p \<ge> 400000 \<and> p < 600000 then 1 / 2
      else 0)"

text \<open>Factor 5, lines 284 to 300.\<close>

definition ageFactor :: "clock \<Rightarrow> listing \<Rightarrow> rat" where
  "ageFactor clk l =
     (let yearBuilt' = parseIntOr (yearBuilt l) 2000;
          propertyAge = fullYear clk - yearBuilt'
      in if propertyAge \<le> 15 then 1
         else if propertyAge \<le> 30 then 1 / 2
         else 0)"

definition bedroomFactor :: "listing \<Rightarrow> rat" where
  "bedroomFactor l =
     (let beds = parseIntOr (bedrooms l) 0
      in if beds \<ge> 3 \<and> beds \<le> 4 then 1
         else if beds = 2 \<or> beds = 5 then 1 / 2
         else 0)"

text \<open>\<^verbatim>\<open>Math.round(x)\<close> is the floor of x + 1/2.\<close>

definition mathRound :: "rat \<Rightarrow> int" where
  "mathRound x = \<lfloor>x + 1 / 2\<rfloor>"

definition rawScore :: "date_parser \<Rightarrow> clock \<Rightarrow> listing \<Rightarrow> rat" where
  "rawScore parseDate clk l =
     (let score = 0;
          score = score + motivationFactor (parsedDom l);
          score = score + freshnessFactor (daysSinceExpired parseDate clk l);
          score = score + repeatFailureFactor (parsedCdom l) (parsedDom l);
          score = score + priceFactor (parsedPrice l);
          score = score + ageFactor clk l;
          score = score + bedroomFactor l
      in score)"

definition calculateUrgencyScore :: "date_parser \<Rightarrow> clock \<Rightarrow> listing \<Rightarrow> rat" where
  "calculateUrgencyScore parseDate clk l =
     min 10 (of_int (mathRound (rawScore parseDate clk l * 10)) / 10)"

subsection \<open>CSV parsing (HAR MLS format)\<close>

text \<open>\<^verbatim>\<open>parts.join(sep)\<close>\<close>

fun joinWith :: "string \<Rightarrow> string list \<Rightarrow> string" where
  "joinWith sep [] = []"
| "joinWith sep [p] = p"
| "joinWith sep (p # q # ps) = p @ sep @ joinWith sep (q # ps)"

text \<open>
  \<^verbatim>\<open>parseCSVLine\<close>, lines 198 to 217. The loop reads one character at a time with the
  variables \<^verbatim>\<open>values\<close>, \<^verbatim>\<open>current\<close> and \<^verbatim>\<open>inQuotes\<close>; after the last character
  the current field is pushed.
\<close>

fun parseCSVLineLoop :: "string \<Rightarrow> string list \<Rightarrow> string \<Rightarrow> bool \<Rightarrow> string list" where
  "parseCSVLineLoop [] values current inQuotes = values @ [trim current]"
| "parseCSVLineLoop (char # rest) values current inQuotes =
     (if char = dquote then parseCSVLineLoop rest values current (\<not> inQuotes)
      else if char = comma \<and> \<not> inQuotes
        then parseCSVLineLoop rest (values @ [trim current]) [] inQuotes
      else parseCSVLineLoop rest values (current @ [char]) inQuotes)"

definition parseCSVLine :: "string \<Rightarrow> string list" where
  "parseCSVLine line = map stripQuotes (parseCSVLineLoop line [] [] False)"

text \<open>Line 146: \<^verbatim>\<open>csvText.split("\n").filter(line => line.trim())\<close>\<close>

definition nonBlankLines :: "string \<Rightarrow> string list" where
  "nonBlankLines csvText = filter (\<lambda>line. trim line \<noteq> []) (splitOn newline csvText)"

text \<open>Line 149: \<^verbatim>\<open>lines[0].split(",").map(h => h.trim().replace(/^"|"$/g, ""))\<close>\<close>

definition csvHeaders :: "string \<Rightarrow> string list" where
  "csvHeaders line = map (\<lambda>h. stripQuotes (trim h)) (splitOn comma line)"

text \<open>\<^verbatim>\<open>values[index] || ""\<close>: an index past the end reads \<^verbatim>\<open>undefined\<close>.\<close>

definition valueAt :: "string list \<Rightarrow> nat \<Rightarrow> string" where
  "valueAt values index = (if index < length values then values ! index else [])"

text \<open>
  Lines 154 to 157: the object \<^verbatim>\<open>listing\<close>, a map from header to value, filled by
  \<^verbatim>\<open>headers.forEach\<close>; a header that occurs twice keeps the later value.
\<close>

type_synonym raw_record = "string \<rightharpoonup> string"

fun forEachHeader :: "string list \<Rightarrow> nat \<Rightarrow> string list \<Rightarrow> raw_record \<Rightarrow> raw_record" where
  "forEachHeader [] index values listing = listing"
| "forEachHeader (header # rest) index values listing =
     forEachHeader rest (Suc index) values (listing(header \<mapsto> valueAt values index))"

definition rawRecord :: "string list \<Rightarrow> string list \<Rightarrow> raw_record" where
  "rawRecord headers values = forEachHeader headers 0 values Map.empty"

text \<open>\<^verbatim>\<open>x || ""\<close> for a property x that is a string or \<^verbatim>\<open>undefined\<close>.\<close>

definition orEmpty :: "string option \<Rightarrow> string" where
  "orEmpty x = (case x of None \<Rightarrow> [] | Some s \<Rightarrow> s)"

definition addressColumns :: "string list" where
  "addressColumns = [''Street Number'', ''Street Dir Prefix'', ''Street Name'',
     ''Street Suffix'', ''Street Dir Suffix'', ''Unit Number'']"

text \<open>Line 167: \<^verbatim>\<open>.filter(p => p && p.trim())\<close> on properties that may be missing.\<close>

fun keptParts :: "string option list \<Rightarrow> string list" where
  "keptParts [] = []"
| "keptParts (None # ps) = keptParts ps"
| "keptParts (Some p # ps) = (if p \<noteq> [] \<and> trim p \<noteq> [] then p # keptParts ps else keptParts ps)"

definition addressParts :: "raw_record \<Rightarrow> string" where
  "addressParts listing = joinWith '' '' (keptParts (map listing addressColumns))"

text \<open>Lines 169 to 188: the object \<^verbatim>\<open>normalized\<close>.\<close>

definition normalized :: "raw_record \<Rightarrow> listing" where
  "normalized listing =
     \<lparr>address = addressParts listing,
      city = orEmpty (listing ''City/Location''),
      zip' = orEmpty (listing ''Zip Code''),
      state = ''TX'',
      price = orEmpty (listing ''List Price''),
      originalListDate = orEmpty (listing ''List Date''),
      expiredDate = orEmpty (listing ''Last Change Timestamp''),
      daysOnMarket = orEmpty (listing ''DOM''),
      cumulativeDaysOnMarket = orEmpty (listing ''CDOM''),
      bedrooms = orEmpty (listing ''Bedrooms''),
      bathrooms = orEmpty (listing ''Baths Total''),
      sqft = orEmpty (listing ''Building SqFt''),
      yearBuilt = orEmpty (listing ''Year Built''),
      listingAgent = orEmpty (listing ''List Agent Full Name''),
      listingOffice = orEmpty (listing ''List Office Name''),
      mlsNumber = orEmpty (listing ''MLS Number''),
      propertyType = orEmpty (listing ''Property Type''),
      status = orEmpty (listing ''Status''),
      urgencyScore = None,
      csvFilename = None,
      owner = None\<rparr>"

text \<open>One turn of the loop of lines 152 to 193, up to the object \<^verbatim>\<open>normalized\<close>.\<close>

definition rowNormalized :: "string list \<Rightarrow> string \<Rightarrow> listing" where
  "rowNormalized headers line = normalized (rawRecord headers (parseCSVLine line))"

fun parseCSVRows :: "string list \<Rightarrow> string list \<Rightarrow> listing list \<Rightarrow> listing list" where
  "parseCSVRows headers [] listings = listings"
| "parseCSVRows headers (line # rest) listings =
     (let normalized = rowNormalized headers line
      in if address normalized \<noteq> []
         then parseCSVRows headers rest (listings @ [normalized])
         else parseCSVRows headers rest listings)"

definition parseCSV :: "string \<Rightarrow> listing list" where
  "parseCSV csvText =
     (let lines = nonBlankLines csvText
      in if length lines < 2 then []
         else parseCSVRows (csvHeaders (hd lines)) (tl lines) [])"

text \<open>The header names the code computes for a text (line 149).\<close>

definition codeHeaders :: "string \<Rightarrow> string list" where
  "codeHeaders csvText = csvHeaders (hd (nonBlankLines csvText))"

text \<open>
  The words of the specification, for comparison with the code: the assembled address is
  the non-empty ones among the six address components, joined with single spaces; the
  data rows of a text are its non-blank lines after the first; the header row is split
  on commas like a data row, respecting double-quoted cells, and its names are trimmed
  and stripped of quotes; the columns behind the other string fields.
\<close>

definition specAssembledAddress :: "raw_record \<Rightarrow> string" where
  "specAssembledAddress listing =
     joinWith '' '' (filter (\<lambda>p. p \<noteq> []) (map (\<lambda>c. orEmpty (listing c)) addressColumns))"

definition dataRows :: "string \<Rightarrow> string list" where
  "dataRows csvText = tl (nonBlankLines csvText)"

definition specHeaderRow :: "string \<Rightarrow> string list" where
  "specHeaderRow csvText = parseCSVLine (hd (nonBlankLines csvText))"

definition fieldColumns :: "(string \<times> (listing \<Rightarrow> string)) list" where
  "fieldColumns =
     [(''City/Location'', city), (''Zip Code'', zip'), (''List Price'', price),
      (''List Date'', originalListDate), (''Last Change Timestamp'', expiredDate),
      (''DOM'', daysOnMarket), (''CDOM'', cumulativeDaysOnMarket), (''Bedrooms'', bedrooms),
      (''Baths Total'', bathrooms), (''Building SqFt'', sqft), (''Year Built'', yearBuilt),
      (''List Agent Full Name'', listingAgent), (''List Office Name'', listingOffice),
      (''MLS Number'', mlsNumber), (''Property Type'', propertyType), (''Status'', status)]"

text \<open>What \<^verbatim>\<open>parseCSVLine\<close> puts into a field: no quote character, and white space
  only if something else is there too.\<close>

definition cleanValue :: "string \<Rightarrow> bool" where
  "cleanValue v = (dquote \<notin> set v \<and> (v \<noteq> [] \<longrightarrow> trim v \<noteq> []))"

subsection \<open>Responses of the skip-trace service\<close>

text \<open>
  A parsed JSON value. A property read gives \<^term>\<open>None\<close> for \<^verbatim>\<open>undefined\<close>; reading
  a property of \<^verbatim>\<open>null\<close> throws. None of the property names the client reads is
  defined on a string, a number, a boolean or an array, and the last of two equal keys
  of an object is the one \<^verbatim>\<open>JSON.parse\<close> keeps.
\<close>

datatype json = JNull | JBool bool | JNum rat | JStr string | JArr "json list"
  | JObj "(string \<times> json) list"

datatype exn = TypeError | FetchError | BodyError

definition getProp :: "json \<Rightarrow> string \<Rightarrow> exn + json option" where
  "getProp v name =
     (case v of
        JNull \<Rightarrow> Inl TypeError
      | JObj members \<Rightarrow> Inr (map_of (rev members) name)
      | _ \<Rightarrow> Inr None)"

definition truthy :: "json option \<Rightarrow> bool" where
  "truthy v =
     (case v of
        None \<Rightarrow> False
      | Some JNull \<Rightarrow> False
      | Some (JBool b) \<Rightarrow> b
      | Some (JNum n) \<Rightarrow> n \<noteq> 0
      | Some (JStr s) \<Rightarrow> s \<noteq> []
      | Some _ \<Rightarrow> True)"

text \<open>\<^verbatim>\<open>a || b\<close>\<close>

definition orElse :: "json option \<Rightarrow> json option \<Rightarrow> json option" where
  "orElse a b = (if truthy a then a else b)"

text \<open>
  A response of \<^verbatim>\<open>fetch\<close>: the flag \<^verbatim>\<open>ok\<close>, and what \<^verbatim>\<open>text()\<close> and \<^verbatim>\<open>json()\<close>
  resolve to, \<^term>\<open>None\<close> where the promise rejects. The service is a parameter: the
  answer to the submission, the answer to the status request number i (from 0) for a
  queue id, and the answer to the download of a result location. A rejected
  \<^verbatim>\<open>fetch\<close> is \<^term>\<open>Inl FetchError\<close>.
\<close>

record response =
  ok :: bool
  bodyText :: "string option"
  bodyJson :: "json option"

record service =
  submitFetch :: "string \<Rightarrow> string \<Rightarrow> exn + response"
  statusFetch :: "string \<Rightarrow> json option \<Rightarrow> nat \<Rightarrow> exn + response"
  resultsFetch :: "json \<Rightarrow> exn + response"

subsection \<open>Tracerfy skip tracing\<close>

text \<open>Lines 314 to 318: the CSV sent to the service.\<close>

definition csvHeader :: string where
  "csvHeader =
     ''address,city,state,zip,first_name,last_name,mail_address,mail_city,mail_state''
     @ [newline]"

definition csvRow :: "listing \<Rightarrow> string" where
  "csvRow l =
     [dquote] @ address l @ [dquote, comma, dquote] @ city l @ [dquote, comma, dquote]
     @ state l @ [dquote, comma, dquote] @ zip' l @ [dquote]
     @ concat (replicate 5 [comma, dquote, dquote])"

definition csvContent :: "listing list \<Rightarrow> string" where
  "csvContent listings = csvHeader @ joinWith [newline] (map csvRow listings)"

text \<open>Line 349: \<^verbatim>\<open>submitResult.queue_id || submitResult.id\<close>\<close>

definition queueIdOf :: "json \<Rightarrow> exn + json option" where
  "queueIdOf submitResult =
     (case getProp submitResult ''queue_id'' of
        Inl e \<Rightarrow> Inl e
      | Inr queue_id \<Rightarrow>
          (case getProp submitResult ''id'' of
             Inl e \<Rightarrow> Inl e
           | Inr id' \<Rightarrow> Inr (orElse queue_id id')))"

text \<open>Lines 376 to 378: \<^verbatim>\<open>isComplete\<close> and \<^verbatim>\<open>resultUrl\<close> of a status payload.\<close>

definition statusFields :: "json \<Rightarrow> exn + (bool \<times> json option)" where
  "statusFields statusResult =
     (case statusResult of
        JNull \<Rightarrow> Inl TypeError
      | _ \<Rightarrow>
          (let get = (\<lambda>name. case getProp statusResult name of Inr v \<Rightarrow> v | Inl e \<Rightarrow> None);
               status = orElse (get ''status'') (get ''state'');
               isComplete = (status = Some (JStr ''completed'') \<or> status = Some (JStr ''complete'')
                             \<or> status = Some (JStr ''done'')
                             \<or> get ''pending'' = Some (JBool False));
               resultUrl = orElse (orElse (orElse (get ''download_url'') (get ''result_url''))
                                     (get ''file_url'')) (get ''url'')
           in Inr (isComplete, resultUrl)))"

text \<open>
  The poll loop, lines 353 to 386, with its variables \<^verbatim>\<open>attempts\<close> and
  \<^verbatim>\<open>downloadUrl\<close>. Two fields trace the run: \<^term>\<open>requests\<close> counts the status requests
  issued, and \<^term>\<open>thrown\<close> holds the exception that left the loop, if one did.
\<close>

definition maxAttempts :: nat where
  "maxAttempts = 12"

record poll_state =
  attempts :: nat
  downloadUrl :: "json option"
  requests :: nat
  thrown :: "exn option"

definition pollStart :: poll_state where
  "pollStart = \<lparr>attempts = 0, downloadUrl = None, requests = 0, thrown = None\<rparr>"

function pollLoop :: "service \<Rightarrow> string \<Rightarrow> json option \<Rightarrow> poll_state \<Rightarrow> poll_state" where
  "pollLoop svc apiKey queueId st =
     (if attempts st < maxAttempts then
        (case statusFetch svc apiKey queueId (requests st) of
           Inl e \<Rightarrow> st\<lparr>requests := requests st + 1, thrown := Some e\<rparr>
         | Inr statusResponse \<Rightarrow>
             if \<not> ok statusResponse
             then pollLoop svc apiKey queueId
                    (st\<lparr>requests := requests st + 1, attempts := attempts st + 1\<rparr>)
             else (case bodyJson statusResponse of
                     None \<Rightarrow> st\<lparr>requests := requests st + 1, thrown := Some BodyError\<rparr>
                   | Some statusResult \<Rightarrow>
                       (case statusFields statusResult of
                          Inl e \<Rightarrow> st\<lparr>requests := requests st + 1, thrown := Some e\<rparr>
                        | Inr (isComplete, resultUrl) \<Rightarrow>
                            if isComplete \<and> truthy resultUrl
                            then st\<lparr>requests := requests st + 1, downloadUrl := resultUrl\<rparr>
                            else pollLoop svc apiKey queueId
                                   (st\<lparr>requests := requests st + 1,
                                       attempts := attempts st + 1\<rparr>))))
      else st)"
  by pat_completeness auto
termination
  by (relation "measure (\<lambda>(svc, apiKey, queueId, st). maxAttempts - attempts st)") auto

text \<open>\<^verbatim>\<open>parseTracerfyResults\<close>, lines 434 to 451. \<^verbatim>\<open>replace(/\s+/g, "_")\<close> puts one
  underscore for each run of white space.\<close>

function replaceSpaceRuns :: "string \<Rightarrow> string" where
  "replaceSpaceRuns [] = []"
| "replaceSpaceRuns (c # cs) =
     (if isSpace c then CHR ''_'' # replaceSpaceRuns (dropWhile isSpace cs)
      else c # replaceSpaceRuns cs)"
  by pat_completeness auto
termination
  by (relation "measure length") (auto simp: le_imp_less_Suc length_dropWhile_le)

definition tracerfyHeaders :: "string \<Rightarrow> string list" where
  "tracerfyHeaders line =
     map (\<lambda>h. replaceSpaceRuns (toLowerCase (stripQuotes (trim h)))) (splitOn comma line)"

definition parseTracerfyResults :: "string \<Rightarrow> raw_record list" where
  "parseTracerfyResults csvText =
     (let lines = nonBlankLines csvText
      in if length lines < 2 then []
         else map (\<lambda>line. rawRecord (tracerfyHeaders (hd lines)) (parseCSVLine line))
                (tl lines))"

text \<open>Lines 406 to 424: matching the results back. \<^verbatim>\<open>s.split(" ")[0]\<close> is what stands
  before the first space of s.\<close>

definition firstToken :: "string \<Rightarrow> string" where
  "firstToken s = takeWhile (\<lambda>c. c \<noteq> CHR '' '') s"

definition addressMatches :: "listing \<Rightarrow> raw_record \<Rightarrow> bool" where
  "addressMatches listing r =
     (let normalizedAddress = trim (toLowerCase (address listing));
          resultAddress = trim (toLowerCase (orEmpty (r ''address'')))
      in includes' resultAddress (firstToken normalizedAddress)
         \<or> includes' normalizedAddress (firstToken resultAddress))"

text \<open>\<^verbatim>\<open>a || b || ... || ""\<close> on properties that are strings or missing.\<close>

fun firstTruthy :: "string option list \<Rightarrow> string" where
  "firstTruthy [] = []"
| "firstTruthy (x # xs) = (if orEmpty x \<noteq> [] then orEmpty x else firstTruthy xs)"

text \<open>
  Lines 417 to 420. In line 417 the operator \<^verbatim>\<open>||\<close> binds tighter than \<^verbatim>\<open>? :\<close>, so the
  test is \<^verbatim>\<open>match.owner_name || match.first_name\<close> and the value, when the test holds,
  is the trimmed first and last name.
\<close>

definition ownerOf :: "raw_record \<Rightarrow> owner_fields" where
  "ownerOf match =
     \<lparr>ownerName =
        (if firstTruthy [match ''owner_name'', match ''first_name''] \<noteq> []
         then trim (orEmpty (match ''first_name'') @ '' '' @ orEmpty (match ''last_name''))
         else []),
      ownerPhone = firstTruthy [match ''mobile_1'', match ''landline_1'', match ''phone_1''],
      ownerEmail = firstTruthy [match ''email_1'', match ''email''],
      ownerMailingAddress = firstTruthy [match ''mail_address'']\<rparr>"

definition matchBack :: "listing list \<Rightarrow> raw_record list \<Rightarrow> listing list" where
  "matchBack listings results =
     map (\<lambda>listing.
            case find (addressMatches listing) results of
              Some match \<Rightarrow> listing\<lparr>owner := Some (ownerOf match)\<rparr>
            | None \<Rightarrow> listing)
       listings"

text \<open>
  The body of the \<^verbatim>\<open>try\<close> block, lines 313 to 426: \<^term>\<open>Inl\<close> is an exception on its
  way to the \<^verbatim>\<open>catch\<close>, \<^term>\<open>Inr\<close> a value returned.
\<close>

definition tryBody :: "service \<Rightarrow> listing list \<Rightarrow> string \<Rightarrow> exn + listing list" where
  "tryBody svc listings apiKey =
     (case submitFetch svc apiKey (csvContent listings) of
        Inl e \<Rightarrow> Inl e
      | Inr submitResponse \<Rightarrow>
          if \<not> ok submitResponse
          then (case bodyText submitResponse of
                  None \<Rightarrow> Inl BodyError
                | Some errorText \<Rightarrow> Inr listings)
          else (case bodyJson submitResponse of
                  None \<Rightarrow> Inl BodyError
                | Some submitResult \<Rightarrow>
                    (case queueIdOf submitResult of
                       Inl e \<Rightarrow> Inl e
                     | Inr queueId \<Rightarrow>
                         (let st = pollLoop svc apiKey queueId pollStart
                          in case thrown st of
                               Some e \<Rightarrow> Inl e
                             | None \<Rightarrow>
                                 (case downloadUrl st of
                                    None \<Rightarrow> Inr listings
                                  | Some url \<Rightarrow>
                                      (case resultsFetch svc url of
                                         Inl e \<Rightarrow> Inl e
                                       | Inr resultsResponse \<Rightarrow>
                                           if \<not> ok resultsResponse then Inr listings
                                           else (case bodyText resultsResponse of
                                                   None \<Rightarrow> Inl BodyError
                                                 | Some resultsCsv \<Rightarrow>
                                                     Inr (matchBack listings
                                                            (parseTracerfyResults resultsCsv)))))))))"

text \<open>Lines 427 to 430: the \<^verbatim>\<open>catch\<close> returns the original listings.\<close>

definition skipTraceWithTracerfy :: "service \<Rightarrow> listing list \<Rightarrow> string \<Rightarrow> listing list" where
  "skipTraceWithTracerfy svc listings apiKey =
     (case tryBody svc listings apiKey of
        Inl error \<Rightarrow> listings
      | Inr result \<Rightarrow> result)"

declare pollLoop.simps [simp del]

text \<open>
  Lines 377 to 380, read on an answer to a status request: the answer reports completion
  when the fetch resolved with a success status, the body is JSON, and the payload has
  both the completion mark and a result location. It is the one case in which the loop
  sets \<^verbatim>\<open>downloadUrl\<close>.
\<close>

definition reportsCompletion :: "exn + response \<Rightarrow> bool" where
  "reportsCompletion answer =
     (case answer of
        Inl e \<Rightarrow> False
      | Inr statusResponse \<Rightarrow>
          ok statusResponse
          \<and> (case bodyJson statusResponse of
                None \<Rightarrow> False
              | Some statusResult \<Rightarrow>
                  (case statusFields statusResult of
                     Inl e \<Rightarrow> False
                   | Inr (isComplete, resultUrl) \<Rightarrow> isComplete \<and> truthy resultUrl)))"

text \<open>
  An answer that makes the loop count one attempt and go on: the fetch resolved, and
  either the status check failed (line 366), or the body is JSON other than
  \<^verbatim>\<open>null\<close> without both the completion mark and a result location (line 385). The
  answers that are neither of the two kinds throw: a rejected fetch, a body that is not
  JSON, the payload \<^verbatim>\<open>null\<close>.
\<close>

definition countedAttempt :: "exn + response \<Rightarrow> bool" where
  "countedAttempt answer =
     (case answer of
        Inl e \<Rightarrow> False
      | Inr statusResponse \<Rightarrow>
          \<not> ok statusResponse
          \<or> (case bodyJson statusResponse of
                None \<Rightarrow> False
              | Some statusResult \<Rightarrow>
                  (case statusFields statusResult of
                     Inl e \<Rightarrow> False
                   | Inr (isComplete, resultUrl) \<Rightarrow> \<not> (isComplete \<and> truthy resultUrl))))"

subsection \<open>The orchestrator's scoring step\<close>

text \<open>Lines 80 to 84: each listing is copied with \<^verbatim>\<open>urgencyScore\<close> and
  \<^verbatim>\<open>csvFilename\<close> attached.\<close>

definition scoredListings ::
  "date_parser \<Rightarrow> clock \<Rightarrow> string \<Rightarrow> listing list \<Rightarrow> listing list" where
  "scoredListings parseDate clk fileKey listings =
     map (\<lambda>listing. listing\<lparr>urgencyScore := Some (calculateUrgencyScore parseDate clk listing),
                              csvFilename := Some fileKey\<rparr>)
       listings"

subsection \<open>Sample inputs\<close>

definition blankListing :: listing where
  "blankListing = \<lparr>address = '''', city = '''', zip' = '''', state = ''TX'', price = '''',
     originalListDate = '''', expiredDate = '''', daysOnMarket = '''',
     cumulativeDaysOnMarket = '''', bedrooms = '''', bathrooms = '''', sqft = '''',
     yearBuilt = '''', listingAgent = '''', listingOffice = '''', mlsNumber = '''',
     propertyType = '''', status = '''', urgencyScore = None, csvFilename = None,
     owner = None\<rparr>"

text \<open>A date parser that knows one ISO timestamp and rejects every other string, and a
  clock three days after that timestamp.\<close>

definition sampleDateParser :: date_parser where
  "sampleDateParser = [''2024-01-01T00:00:00.000Z'' \<mapsto> 1704067200000]"

definition clock2024 :: clock where
  "clock2024 = \<lparr>now = 1704326400000, fullYear = 2024\<rparr>"

definition listing180 :: listing where
  "listing180 = blankListing\<lparr>daysOnMarket := ''180'', cumulativeDaysOnMarket := ''180'',
     price := ''$150,000''\<rparr>"

definition listing179 :: listing where
  "listing179 = blankListing\<lparr>daysOnMarket := ''179''\<rparr>"

definition negativeDomListing :: listing where
  "negativeDomListing =
     blankListing\<lparr>daysOnMarket := ''-5'', cumulativeDaysOnMarket := ''-5''\<rparr>"

text \<open>A header line with a quoted cell that holds a comma, and a file under that header.\<close>

definition quotedHeader :: string where
  \<open>quotedHeader = ''"Street Number","Owner, Legal","Street Name"''\<close>

definition quotedHeaderCsv :: string where
  \<open>quotedHeaderCsv = quotedHeader @ [newline] @ ''"12","Smith, J","Oak"''\<close>

text \<open>
  Two files whose header has a quoted cell with a comma before an address column. In the
  first the only data row has the street name Oak; in the second the only data row has
  no street name.
\<close>

definition oakRowCsv :: string where
  \<open>oakRowCsv = quotedHeader @ [newline] @ ''"","Smith, J","Oak"''\<close>

definition noStreetCsv :: string where
  \<open>noStreetCsv =
     ''"Owner, Legal","Street Name","Remarks"'' @ [newline] @ ''"Smith, J","","sold"''\<close>

text \<open>A file of three data rows; the second has no address.\<close>

definition threeRowCsv :: string where
  \<open>threeRowCsv =
     ''Street Number,Street Name,Unit Number,DOM'' @ [newline]
     @ ''12,Oak St,,30'' @ [newline]
     @ '',,,45'' @ [newline]
     @ ''"7","Elm, North","4",60'' @ [newline]\<close>

text \<open>Responses and services for the skip-trace client.\<close>

definition jsonResponse :: "json \<Rightarrow> response" where
  "jsonResponse j = \<lparr>ok = True, bodyText = None, bodyJson = Some j\<rparr>"

definition textResponse :: "string \<Rightarrow> response" where
  "textResponse s = \<lparr>ok = True, bodyText = Some s, bodyJson = None\<rparr>"

definition errorResponse :: "string \<Rightarrow> response" where
  "errorResponse s = \<lparr>ok = False, bodyText = Some s, bodyJson = None\<rparr>"

definition queued :: "exn + response" where
  "queued = Inr (jsonResponse (JObj [(''queue_id'', JNum 42)]))"

definition completed :: "exn + response" where
  "completed = Inr (jsonResponse (JObj [(''status'', JStr ''completed''),
     (''download_url'', JStr ''https://tracerfy.com/r/42.csv'')]))"

definition processing :: "exn + response" where
  "processing = Inr (jsonResponse (JObj [(''status'', JStr ''processing'')]))"

definition resultsCsv :: string where
  "resultsCsv =
     ''Address,Owner Name,First Name,Last Name,Mobile 1,Landline 1,Email 1,Mail Address''
     @ [newline]
     @ ''12 Oak St,John Smith,,,,555-0100,js@example.com,PO Box 1'' @ [newline]"

text \<open>A service that completes at the third status request and delivers one contact.\<close>

definition completingService :: service where
  "completingService =
     \<lparr>submitFetch = (\<lambda>apiKey content. queued),
      statusFetch = (\<lambda>apiKey queueId i. if i < 2 then processing else completed),
      resultsFetch = (\<lambda>url. Inr (textResponse resultsCsv))\<rparr>"

text \<open>A service whose status endpoint fails on even requests and reports work in
  progress on odd ones, for ever.\<close>

definition neverDoneService :: service where
  "neverDoneService =
     \<lparr>submitFetch = (\<lambda>apiKey content. queued),
      statusFetch = (\<lambda>apiKey queueId i.
         if even i then Inr (errorResponse ''busy'') else processing),
      resultsFetch = (\<lambda>url. Inr (textResponse resultsCsv))\<rparr>"

text \<open>Services whose status endpoint never reports completion and never lets the loop
  count an attempt: one answers every status request with the JSON value
  \<^verbatim>\<open>null\<close>, the other rejects every status fetch.\<close>

definition nullStatusService :: service where
  "nullStatusService = completingService
     \<lparr>statusFetch := (\<lambda>apiKey queueId i. Inr (jsonResponse JNull))\<rparr>"

definition unreachableStatusService :: service where
  "unreachableStatusService = completingService
     \<lparr>statusFetch := (\<lambda>apiKey queueId i. Inl FetchError)\<rparr>"

text \<open>Services that fail at the submission, at the download, and by a rejected fetch.\<close>

definition rejectingService :: service where
  "rejectingService = completingService
     \<lparr>submitFetch := (\<lambda>apiKey content. Inr (errorResponse ''invalid api key''))\<rparr>"

definition noDownloadService :: service where
  "noDownloadService = completingService
     \<lparr>resultsFetch := (\<lambda>url. Inr (errorResponse ''gone''))\<rparr>"

definition offlineService :: service where
  "offlineService = completingService\<lparr>submitFetch := (\<lambda>apiKey content. Inl FetchError)\<rparr>"

definition oakListing :: listing where
  "oakListing = blankListing\<lparr>address := ''12 Oak St'', city := ''Houston'', zip' := ''77001'',
     price := ''140000'', urgencyScore := Some (17 / 2), csvFilename := Some ''a.csv''\<rparr>"

definition pineListing :: listing where
  "pineListing = blankListing\<lparr>address := ''99 Pine Rd'', urgencyScore := Some 3\<rparr>"

section \<open>Properties of the urgency scorer\<close>

lemma motivationFactor_lower: "1 / 2 \<le> motivationFactor d"
  by (simp add: motivationFactor_def)

lemma repeatFailureFactor_lower: "1 / 2 \<le> repeatFailureFactor c d"
  by (simp add: repeatFailureFactor_def)

lemma freshnessFactor_nonneg: "0 \<le> freshnessFactor d"
  by (simp add: freshnessFactor_def split: option.split)

lemma priceFactor_nonneg: "0 \<le> priceFactor p"
  by (simp add: priceFactor_def)

lemma ageFactor_nonneg: "0 \<le> ageFactor clk l"
  by (simp add: ageFactor_def Let_def)

lemma bedroomFactor_nonneg: "0 \<le> bedroomFactor l"
  by (simp add: bedroomFactor_def Let_def)

lemma rawScore_sum:
  "rawScore pd clk l =
     motivationFactor (parsedDom l) + freshnessFactor (daysSinceExpired pd clk l)
     + repeatFailureFactor (parsedCdom l) (parsedDom l) + priceFactor (parsedPrice l)
     + ageFactor clk l + bedroomFactor l"
  by (simp add: rawScore_def Let_def)

lemma rawScore_lower: "1 \<le> rawScore pd clk l"
proof -
  have "1 / 2 + 0 + 1 / 2 + 0 + 0 + 0 \<le> rawScore pd clk l"
    unfolding rawScore_sum
    by (intro add_mono motivationFactor_lower repeatFailureFactor_lower
        freshnessFactor_nonneg priceFactor_nonneg ageFactor_nonneg bedroomFactor_nonneg)
  then show ?thesis by simp
qed

lemma mathRound_lower: "10 \<le> x \<Longrightarrow> 10 \<le> mathRound x"
  by (simp add: mathRound_def le_floor_iff)

lemma rounded_lower: "1 \<le> of_int (mathRound (rawScore pd clk l * 10)) / (10::rat)"
proof -
  have "10 \<le> rawScore pd clk l * 10" using rawScore_lower [of pd clk l] by simp
  then have "10 \<le> mathRound (rawScore pd clk l * 10)" by (rule mathRound_lower)
  then have "(10::rat) \<le> of_int (mathRound (rawScore pd clk l * 10))" by linarith
  then show ?thesis by simp
qed

lemma parsedDom_listing180: "parsedDom listing180 = 180"
  by code_simp

lemma parsedCdom_listing180: "parsedCdom listing180 = 180"
  by code_simp

lemma parsedPrice_listing180: "parsedPrice listing180 = 150000"
  by code_simp

lemma parsedDom_listing179: "parsedDom listing179 = 179"
  by code_simp

text \<open>
  C1 (as amended). The raw score is the sum of the six rubric terms, and at the
  breakpoints: a listing whose DOM parses to 180 gets 2 from the motivation factor and one
  whose DOM parses to 179 gets 3/2; a listing whose CDOM equals its DOM, with the DOM not
  negative, gets 1/2 from the repeat-failure factor; a listing whose price parses to
  150000 gets 3/2 from the price factor.
\<close>

theorem rubric_breakpoints:
  "rawScore pd clk l =
     motivationFactor (parsedDom l) + freshnessFactor (daysSinceExpired pd clk l)
     + repeatFailureFactor (parsedCdom l) (parsedDom l) + priceFactor (parsedPrice l)
     + ageFactor clk l + bedroomFactor l
   \<and> (parsedDom l = 180 \<longrightarrow> motivationFactor (parsedDom l) = 2)
   \<and> (parsedDom l = 179 \<longrightarrow> motivationFactor (parsedDom l) = 3 / 2)
   \<and> (parsedCdom l = parsedDom l \<and> 0 \<le> parsedDom l \<longrightarrow>
        repeatFailureFactor (parsedCdom l) (parsedDom l) = 1 / 2)
   \<and> (parsedPrice l = 150000 \<longrightarrow> priceFactor (parsedPrice l) = 3 / 2)"
  by (simp add: rawScore_sum motivationFactor_def repeatFailureFactor_def priceFactor_def)

theorem rubric_breakpoints_witness:
  "parsedDom listing180 = 180 \<and> motivationFactor (parsedDom listing180) = 2
   \<and> parsedDom listing179 = 179 \<and> motivationFactor (parsedDom listing179) = 3 / 2
   \<and> parsedCdom listing180 = parsedDom listing180 \<and> 0 \<le> parsedDom listing180
   \<and> repeatFailureFactor (parsedCdom listing180) (parsedDom listing180) = 1 / 2
   \<and> parsedPrice listing180 = 150000 \<and> priceFactor (parsedPrice listing180) = 3 / 2"
  using rubric_breakpoints [of sampleDateParser clock2024 listing180]
    rubric_breakpoints [of sampleDateParser clock2024 listing179]
    parsedDom_listing180 parsedCdom_listing180 parsedPrice_listing180 parsedDom_listing179
  by simp

text \<open>
  C1 as stated fails where the DOM is negative: with DOM and CDOM both reading -5, CDOM
  equals DOM, yet -5 exceeds twice -5 and the repeat-failure factor gives 2.
\<close>

theorem repeat_failure_negative_counterexample:
  "parsedCdom negativeDomListing = parsedDom negativeDomListing
   \<and> parsedDom negativeDomListing = - 5
   \<and> repeatFailureFactor (parsedCdom negativeDomListing) (parsedDom negativeDomListing) = 2
   \<and> repeatFailureFactor (parsedCdom negativeDomListing) (parsedDom negativeDomListing)
       \<noteq> 1 / 2"
  by code_simp

text \<open>
  C2. For every listing, date parser and clock, the urgency score lies between 0 and 10
  and is an integer number of tenths.
\<close>

theorem score_range_one_decimal:
  "0 \<le> calculateUrgencyScore pd clk l \<and> calculateUrgencyScore pd clk l \<le> 10
   \<and> (\<exists>k::int. calculateUrgencyScore pd clk l = of_int k / 10)"
proof -
  let ?r = "of_int (mathRound (rawScore pd clk l * 10)) / (10::rat)"
  have lo: "1 \<le> ?r" by (rule rounded_lower)
  have "\<exists>k::int. min 10 ?r = of_int k / 10"
  proof (cases "?r \<le> 10")
    case True
    then have "min 10 ?r = ?r" by simp
    then show ?thesis by blast
  next
    case False
    then have "min 10 ?r = of_int 100 / 10" by simp
    then show ?thesis by blast
  qed
  with lo show ?thesis by (simp add: calculateUrgencyScore_def)
qed

text \<open>
  C3 (as amended). The days-since-expiration quantity is 999 when the expiration date is
  the empty string, \<^verbatim>\<open>NaN\<close> when the string is not empty and does not parse, and
  otherwise the floor of the elapsed milliseconds divided by 86400000. The freshness
  factor gives 2 up to 3 days, 3/2 up to 7, 1 up to 14, 1/2 up to 30 and 0 above, and an
  absent or unparseable date contributes 0.
\<close>

theorem days_since_expired_freshness:
  "(expiredDate l = [] \<longrightarrow> daysSinceExpired pd clk l = Some 999)
   \<and> (expiredDate l \<noteq> [] \<and> pd (expiredDate l) = None \<longrightarrow>
        daysSinceExpired pd clk l = None)
   \<and> (expiredDate l \<noteq> [] \<and> pd (expiredDate l) = Some t \<longrightarrow>
        daysSinceExpired pd clk l = Some \<lfloor>(of_int (now clk - t) :: rat) / 86400000\<rfloor>)
   \<and> (d \<le> 3 \<longrightarrow> freshnessFactor (Some d) = 2)
   \<and> (3 < d \<and> d \<le> 7 \<longrightarrow> freshnessFactor (Some d) = 3 / 2)
   \<and> (7 < d \<and> d \<le> 14 \<longrightarrow> freshnessFactor (Some d) = 1)
   \<and> (14 < d \<and> d \<le> 30 \<longrightarrow> freshnessFactor (Some d) = 1 / 2)
   \<and> (30 < d \<longrightarrow> freshnessFactor (Some d) = 0)
   \<and> (expiredDate l = [] \<or> pd (expiredDate l) = None \<longrightarrow>
        freshnessFactor (daysSinceExpired pd clk l) = 0)"
proof -
  have "(now clk - t) div 86400000 = \<lfloor>(of_int (now clk - t) :: rat) / 86400000\<rfloor>"
    using floor_divide_of_int_eq [of "now clk - t" 86400000, where ?'a = rat] by simp
  then show ?thesis
    by (simp add: daysSinceExpired_def freshnessFactor_def)
qed

theorem days_since_expired_freshness_witness:
  "expiredDate blankListing = []
   \<and> daysSinceExpired sampleDateParser clock2024 blankListing = Some 999
   \<and> freshnessFactor (daysSinceExpired sampleDateParser clock2024 blankListing) = 0
   \<and> daysSinceExpired sampleDateParser clock2024
         (blankListing\<lparr>expiredDate := ''2024-01-01T00:00:00.000Z''\<rparr>) = Some 3
   \<and> freshnessFactor (Some 3) = 2 \<and> freshnessFactor (Some 7) = 3 / 2
   \<and> freshnessFactor (Some 14) = 1 \<and> freshnessFactor (Some 30) = 1 / 2
   \<and> freshnessFactor (Some 31) = 0
   \<and> daysSinceExpired sampleDateParser clock2024 (blankListing\<lparr>expiredDate := ''x''\<rparr>)
       = None"
  using days_since_expired_freshness [of blankListing sampleDateParser clock2024 0 3]
    days_since_expired_freshness
      [of "blankListing\<lparr>expiredDate := ''2024-01-01T00:00:00.000Z''\<rparr>"
          sampleDateParser clock2024 1704067200000 7]
    days_since_expired_freshness
      [of "blankListing\<lparr>expiredDate := ''x''\<rparr>" sampleDateParser clock2024 0 14]
    days_since_expired_freshness [of blankListing sampleDateParser clock2024 0 30]
    days_since_expired_freshness [of blankListing sampleDateParser clock2024 0 31]
  by (simp add: sampleDateParser_def blankListing_def clock2024_def)

text \<open>
  C3 as stated fails for a date that is present and does not parse: the quantity is
  \<^verbatim>\<open>NaN\<close>, not 999.
\<close>

theorem unparseable_date_counterexample:
  "sampleDateParser ''not a date'' = None
   \<and> daysSinceExpired sampleDateParser clock2024
         (blankListing\<lparr>expiredDate := ''not a date''\<rparr>) = None
   \<and> daysSinceExpired sampleDateParser clock2024
         (blankListing\<lparr>expiredDate := ''not a date''\<rparr>) \<noteq> Some 999"
  by (simp add: sampleDateParser_def daysSinceExpired_def blankListing_def)

text \<open>
  C9. For every listing the urgency score is at least 1: the motivation factor and the
  repeat-failure factor each give at least 1/2 whatever the input.
\<close>

theorem score_at_least_one:
  "1 \<le> calculateUrgencyScore pd clk l
   \<and> 1 / 2 \<le> motivationFactor (parsedDom l)
   \<and> 1 / 2 \<le> repeatFailureFactor (parsedCdom l) (parsedDom l)"
proof (intro conjI)
  show "1 \<le> calculateUrgencyScore pd clk l"
    using rounded_lower [of pd clk l] by (simp add: calculateUrgencyScore_def)
  show "1 / 2 \<le> motivationFactor (parsedDom l)"
    by (rule motivationFactor_lower)
  show "1 / 2 \<le> repeatFailureFactor (parsedCdom l) (parsedDom l)"
    by (rule repeatFailureFactor_lower)
qed

section \<open>Properties of the CSV normalizer\<close>

lemma trim_eq_Nil_iff: "trim s = [] \<longleftrightarrow> (\<forall>c\<in>set s. isSpace c)"
proof -
  have "dropWhile isSpace s = [] \<or> \<not> isSpace (hd (dropWhile isSpace s))"
    by (metis hd_dropWhile)
  then have "(\<forall>x\<in>set (dropWhile isSpace s). isSpace x) \<longleftrightarrow> dropWhile isSpace s = []"
    by (metis empty_iff hd_in_set list.set(1))
  then show ?thesis by (simp add: trim_def)
qed

lemma set_trim: "set (trim s) \<subseteq> set s"
  unfolding trim_def
  by (metis set_dropWhileD set_rev subsetI)

lemma dropWhile_keeps: "x \<in> set xs \<Longrightarrow> \<not> P x \<Longrightarrow> x \<in> set (dropWhile P xs)"
  by (induction xs) auto

lemma trim_keeps: "c \<in> set s \<Longrightarrow> \<not> isSpace c \<Longrightarrow> c \<in> set (trim s)"
  by (simp add: trim_def dropWhile_keeps)

lemma trim_trim_nonempty: "trim s \<noteq> [] \<Longrightarrow> trim (trim s) \<noteq> []"
  using trim_keeps by (fastforce simp: trim_eq_Nil_iff)

lemma stripQuotes_id: "dquote \<notin> set s \<Longrightarrow> stripQuotes s = s"
proof (cases s)
  case Nil
  then show ?thesis by (simp add: stripQuotes_def)
next
  case (Cons c cs)
  assume "dquote \<notin> set s"
  moreover from Cons have "last s \<in> set s" by simp
  ultimately have "c \<noteq> dquote" "last s \<noteq> dquote" using Cons by auto
  with Cons show ?thesis by (simp add: stripQuotes_def)
qed

lemma cleanValue_trim: "dquote \<notin> set current \<Longrightarrow> cleanValue (trim current)"
  using set_trim [of current] by (auto simp: cleanValue_def dest: trim_trim_nonempty)

lemma parseCSVLineLoop_clean:
  "\<forall>v\<in>set values. cleanValue v \<Longrightarrow> dquote \<notin> set current \<Longrightarrow>
   \<forall>v\<in>set (parseCSVLineLoop line values current inQuotes). cleanValue v"
proof (induction line arbitrary: "values" current inQuotes)
  case Nil
  then show ?case by (simp add: cleanValue_trim)
next
  case (Cons char rest)
  show ?case
  proof (cases "char = dquote")
    case True
    with Cons show ?thesis by simp
  next
    case notq: False
    show ?thesis
    proof (cases "char = comma \<and> \<not> inQuotes")
      case True
      have "\<forall>v\<in>set (values @ [trim current]). cleanValue v"
        using Cons.prems by (simp add: cleanValue_trim)
      then have "\<forall>v\<in>set (parseCSVLineLoop rest (values @ [trim current]) [] inQuotes).
                   cleanValue v"
        by (rule Cons.IH) simp
      with True notq show ?thesis by simp
    next
      case False
      have "dquote \<notin> set (current @ [char])" using Cons.prems notq by auto
      with Cons.prems
      have "\<forall>v\<in>set (parseCSVLineLoop rest values (current @ [char]) inQuotes). cleanValue v"
        by (intro Cons.IH)
      with False notq show ?thesis by auto
    qed
  qed
qed

lemma parseCSVLine_clean: "v \<in> set (parseCSVLine line) \<Longrightarrow> cleanValue v"
proof -
  assume a: "v \<in> set (parseCSVLine line)"
  have c: "\<forall>v\<in>set (parseCSVLineLoop line [] [] False). cleanValue v"
    by (rule parseCSVLineLoop_clean) simp_all
  then have "map stripQuotes (parseCSVLineLoop line [] [] False)
             = parseCSVLineLoop line [] [] False"
    by (intro map_idI stripQuotes_id) (simp add: cleanValue_def)
  with a c show ?thesis by (simp add: parseCSVLine_def)
qed

lemma valueAt_cases: "valueAt values i = [] \<or> valueAt values i \<in> set values"
  by (simp add: valueAt_def)

lemma forEachHeader_None:
  "forEachHeader headers i values m k = None \<longleftrightarrow> (k \<notin> set headers \<and> m k = None)"
  by (induction headers arbitrary: i m) auto

lemma forEachHeader_Some:
  "forEachHeader headers i values m k = Some v \<Longrightarrow>
   m k = Some v \<or> v = [] \<or> v \<in> set values"
proof (induction headers arbitrary: i m)
  case Nil
  then show ?case by simp
next
  case (Cons h hs)
  from Cons.prems
  have "forEachHeader hs (Suc i) values (m(h \<mapsto> valueAt values i)) k = Some v"
    by simp
  then have "(m(h \<mapsto> valueAt values i)) k = Some v \<or> v = [] \<or> v \<in> set values"
    by (rule Cons.IH)
  then show ?case using valueAt_cases [of "values" i] by (auto split: if_splits)
qed

lemma rawRecord_absent: "column \<notin> set headers \<Longrightarrow> rawRecord headers values column = None"
  by (simp add: rawRecord_def forEachHeader_None)

lemma rawRecord_clean:
  "rawRecord headers (parseCSVLine line) k = Some v \<Longrightarrow> v \<noteq> [] \<Longrightarrow> trim v \<noteq> []"
proof -
  assume a: "rawRecord headers (parseCSVLine line) k = Some v" and n: "v \<noteq> []"
  from a have "v = [] \<or> v \<in> set (parseCSVLine line)"
    using forEachHeader_Some [of headers 0 "parseCSVLine line" Map.empty k v]
    by (simp add: rawRecord_def)
  with n have "cleanValue v" by (auto dest: parseCSVLine_clean)
  with n show ?thesis by (simp add: cleanValue_def)
qed

lemma keptParts_spec:
  "(\<And>k v. r k = Some v \<Longrightarrow> v \<noteq> [] \<Longrightarrow> trim v \<noteq> []) \<Longrightarrow>
   keptParts (map r columns) = filter (\<lambda>p. p \<noteq> []) (map (\<lambda>c. orEmpty (r c)) columns)"
proof (induction columns)
  case Nil
  then show ?case by simp
next
  case (Cons c cs)
  then have ih: "keptParts (map r cs) = filter (\<lambda>p. p \<noteq> []) (map (\<lambda>c. orEmpty (r c)) cs)"
    by simp
  show ?case
  proof (cases "r c")
    case None
    with ih show ?thesis by (simp add: orEmpty_def)
  next
    case (Some v)
    with Cons.prems have "v \<noteq> [] \<Longrightarrow> trim v \<noteq> []" by simp
    with Some ih show ?thesis by (auto simp: orEmpty_def)
  qed
qed

lemma address_rowNormalized:
  "address (rowNormalized headers line) =
   specAssembledAddress (rawRecord headers (parseCSVLine line))"
  using keptParts_spec [of "rawRecord headers (parseCSVLine line)" addressColumns]
    rawRecord_clean [of headers line]
  by (simp add: rowNormalized_def normalized_def addressParts_def specAssembledAddress_def)

lemma parseCSVRows_eq:
  "parseCSVRows headers rows listings =
   listings @ map (rowNormalized headers)
     (filter (\<lambda>line. address (rowNormalized headers line) \<noteq> []) rows)"
  by (induction rows arbitrary: listings) (simp_all add: Let_def)

lemma parseCSV_eq:
  "parseCSV csvText =
   map (rowNormalized (codeHeaders csvText))
     (filter (\<lambda>line. address (rowNormalized (codeHeaders csvText) line) \<noteq> [])
        (dataRows csvText))"
proof (cases "length (nonBlankLines csvText) < 2")
  case True
  then have "tl (nonBlankLines csvText) = []"
    by (cases "nonBlankLines csvText") auto
  with True show ?thesis by (simp add: parseCSV_def dataRows_def)
next
  case False
  then show ?thesis
    by (simp add: parseCSV_def Let_def dataRows_def codeHeaders_def parseCSVRows_eq)
qed

lemma absent_columns_default:
  "(column, field) \<in> set fieldColumns \<Longrightarrow> column \<notin> set headers \<Longrightarrow>
   field (rowNormalized headers line) = []"
  by (auto simp: fieldColumns_def rowNormalized_def normalized_def rawRecord_absent
      orEmpty_def)

text \<open>
  C4: the header line is cut at every comma, quoted or not (line 149), while the data
  rows go through the quote-aware \<^verbatim>\<open>parseCSVLine\<close> (line 153). A quoted data field with
  a comma is one value; a quoted header cell with a comma becomes two column names, the
  columns after it shift, and here the street name is lost from the address.
\<close>

theorem header_split_ignores_quotes:
  \<open>parseCSVLine ''"123 Main St, Apt 4",Houston'' = [''123 Main St, Apt 4'', ''Houston'']
   \<and> parseCSVLine quotedHeader = [''Street Number'', ''Owner, Legal'', ''Street Name'']
   \<and> csvHeaders quotedHeader = [''Street Number'', ''Owner'', ''Legal'', ''Street Name'']
   \<and> map address (parseCSV quotedHeaderCsv) = [''12'']\<close>
  by code_simp

lemma parseCSV_rows_code_headers:
  "parseCSV csvText =
     map (rowNormalized (codeHeaders csvText))
       (filter (\<lambda>line. specAssembledAddress
                  (rawRecord (codeHeaders csvText) (parseCSVLine line)) \<noteq> [])
          (dataRows csvText))"
  using parseCSV_eq [of csvText] by (simp add: address_rowNormalized)

lemma parseCSV_defaults_code_headers:
  assumes "(column, field) \<in> set fieldColumns" and "l \<in> set (parseCSV csvText)"
    and "column \<notin> set (codeHeaders csvText)"
  shows "field l = []"
proof -
  from assms(2) obtain line where "l = rowNormalized (codeHeaders csvText) line"
    by (subst (asm) parseCSV_rows_code_headers) auto
  with assms(1,3) show ?thesis by (simp add: absent_columns_default)
qed

text \<open>
  Where the plain split of the header line gives the names the quote-aware split gives,
  \<^verbatim>\<open>parseCSV\<close> does what the specification says: its output is, in order, one record
  for each data row whose assembled address is not empty, and a field whose column is
  not among the header names is the empty string.
\<close>

lemma parseCSV_rows_when_headers_agree:
  assumes "codeHeaders csvText = specHeaderRow csvText"
  shows "parseCSV csvText =
     map (rowNormalized (specHeaderRow csvText))
       (filter (\<lambda>line. specAssembledAddress
                  (rawRecord (specHeaderRow csvText) (parseCSVLine line)) \<noteq> [])
          (dataRows csvText))"
    and "(column, field) \<in> set fieldColumns \<Longrightarrow> l \<in> set (parseCSV csvText) \<Longrightarrow>
         column \<notin> set (specHeaderRow csvText) \<Longrightarrow> field l = []"
  using parseCSV_rows_code_headers [of csvText]
    parseCSV_defaults_code_headers [of column field l csvText] assms
  by simp_all

lemma threeRowCsv_headers_agree: "codeHeaders threeRowCsv = specHeaderRow threeRowCsv"
  by code_simp

lemma address_threeRowCsv:
  "map address (parseCSV threeRowCsv) = [''12 Oak St'', ''7 Elm, North 4'']"
  by code_simp

text \<open>
  C5: the claim fails on the code through the header split of C4. With the header
  \<^verbatim>\<open>"Street Number","Owner, Legal","Street Name"\<close> the specification has three
  columns, and the data row \<^verbatim>\<open>"","Smith, J","Oak"\<close> has the assembled address Oak;
  the code cuts the header into four names, reads the street name from a fourth value
  that is not there, and drops the row. In the other direction, under the header
  \<^verbatim>\<open>"Owner, Legal","Street Name","Remarks"\<close> the row \<^verbatim>\<open>"Smith, J","","sold"\<close> has
  an empty assembled address, and the code keeps it with the address sold.
\<close>

theorem header_shift_drops_addressed_row:
  \<open>dataRows oakRowCsv = [''"","Smith, J","Oak"'']
   \<and> specHeaderRow oakRowCsv = [''Street Number'', ''Owner, Legal'', ''Street Name'']
   \<and> map (\<lambda>line. specAssembledAddress (rawRecord (specHeaderRow oakRowCsv)
                                              (parseCSVLine line)))
         (dataRows oakRowCsv) = [''Oak'']
   \<and> codeHeaders oakRowCsv = [''Street Number'', ''Owner'', ''Legal'', ''Street Name'']
   \<and> parseCSV oakRowCsv = []
   \<and> dataRows noStreetCsv = [''"Smith, J","","sold"'']
   \<and> map (\<lambda>line. specAssembledAddress (rawRecord (specHeaderRow noStreetCsv)
                                              (parseCSVLine line)))
         (dataRows noStreetCsv) = ['''']
   \<and> map address (parseCSV noStreetCsv) = [''sold'']\<close>
  by code_simp

section \<open>Properties of the skip-trace client\<close>

lemma pollLoop_step:
  "attempts st < maxAttempts \<Longrightarrow>
   (requests (pollLoop svc apiKey queueId st) = requests st + 1
    \<and> attempts (pollLoop svc apiKey queueId st) = attempts st)
   \<or> pollLoop svc apiKey queueId st =
       pollLoop svc apiKey queueId
         (st\<lparr>requests := requests st + 1, attempts := attempts st + 1\<rparr>)"
  by (auto simp: pollLoop.simps [of svc apiKey queueId st] split: sum.splits option.splits)

lemma pollLoop_bounds:
  "requests st \<le> attempts st \<Longrightarrow> attempts st \<le> maxAttempts \<Longrightarrow>
   requests (pollLoop svc apiKey queueId st) \<le> maxAttempts
   \<and> attempts (pollLoop svc apiKey queueId st) \<le> maxAttempts"
proof (induction "maxAttempts - attempts st" arbitrary: st)
  case 0
  then have "attempts st = maxAttempts" by simp
  with "0.prems" show ?case by (simp add: pollLoop.simps [of svc apiKey queueId st])
next
  case (Suc n)
  then have lt: "attempts st < maxAttempts" by simp
  let ?next = "st\<lparr>requests := requests st + 1, attempts := attempts st + 1\<rparr>"
  have n: "n = maxAttempts - attempts ?next" using Suc.hyps(2) by simp
  have "requests ?next \<le> attempts ?next" "attempts ?next \<le> maxAttempts"
    using lt Suc.prems by simp_all
  with n have ih: "requests (pollLoop svc apiKey queueId ?next) \<le> maxAttempts
                   \<and> attempts (pollLoop svc apiKey queueId ?next) \<le> maxAttempts"
    by (rule Suc.hyps(1))
  from pollLoop_step [OF lt, of svc apiKey queueId] show ?case
  proof
    assume "requests (pollLoop svc apiKey queueId st) = requests st + 1
            \<and> attempts (pollLoop svc apiKey queueId st) = attempts st"
    with lt Suc.prems show ?thesis by simp
  next
    assume "pollLoop svc apiKey queueId st = pollLoop svc apiKey queueId ?next"
    with ih show ?thesis by simp
  qed
qed

lemma pollLoop_counted_step:
  assumes "countedAttempt (statusFetch svc apiKey queueId (requests st))"
    and "attempts st < maxAttempts"
  shows "pollLoop svc apiKey queueId st =
         pollLoop svc apiKey queueId
           (st\<lparr>requests := requests st + 1, attempts := attempts st + 1\<rparr>)"
proof -
  from assms(1) obtain statusResponse where
    r: "statusFetch svc apiKey queueId (requests st) = Inr statusResponse"
    by (cases "statusFetch svc apiKey queueId (requests st)") (auto simp: countedAttempt_def)
  show ?thesis
  proof (cases "ok statusResponse")
    case False
    with assms(2) r show ?thesis by (simp add: pollLoop.simps [of svc apiKey queueId st])
  next
    case True
    with assms(1) r obtain statusResult isComplete resultUrl where
      "bodyJson statusResponse = Some statusResult"
      "statusFields statusResult = Inr (isComplete, resultUrl)"
      "\<not> (isComplete \<and> truthy resultUrl)"
      by (auto simp: countedAttempt_def split: option.splits sum.splits)
    with assms(2) r True show ?thesis
      by (auto simp: pollLoop.simps [of svc apiKey queueId st])
  qed
qed

lemma pollLoop_counted:
  "\<forall>i. countedAttempt (statusFetch svc apiKey queueId i) \<Longrightarrow> attempts st \<le> maxAttempts \<Longrightarrow>
   pollLoop svc apiKey queueId st =
   st\<lparr>requests := requests st + (maxAttempts - attempts st), attempts := maxAttempts\<rparr>"
proof (induction "maxAttempts - attempts st" arbitrary: st)
  case 0
  then have "attempts st = maxAttempts" by simp
  then show ?case by (simp add: pollLoop.simps [of svc apiKey queueId st])
next
  case (Suc n)
  then have lt: "attempts st < maxAttempts" by simp
  let ?next = "st\<lparr>requests := requests st + 1, attempts := attempts st + 1\<rparr>"
  have n: "n = maxAttempts - attempts ?next" using Suc.hyps(2) by simp
  have le: "attempts ?next \<le> maxAttempts" using lt by simp
  have ih: "pollLoop svc apiKey queueId ?next =
            st\<lparr>requests := requests st + (maxAttempts - attempts st), attempts := maxAttempts\<rparr>"
    using Suc.hyps(1) [OF n Suc.prems(1) le] lt by simp
  from Suc.prems(1) have "countedAttempt (statusFetch svc apiKey queueId (requests st))"
    by blast
  then have "pollLoop svc apiKey queueId st = pollLoop svc apiKey queueId ?next"
    using lt by (rule pollLoop_counted_step)
  with ih show ?case by simp
qed

lemma pollLoop_counted_start:
  "\<forall>i. countedAttempt (statusFetch svc apiKey queueId i) \<Longrightarrow>
   pollLoop svc apiKey queueId pollStart =
   \<lparr>attempts = 12, downloadUrl = None, requests = 12, thrown = None\<rparr>"
  using pollLoop_counted [of svc apiKey queueId pollStart]
  by (simp add: pollStart_def maxAttempts_def)

lemma pollLoop_no_completion_step:
  assumes "\<not> reportsCompletion (statusFetch svc apiKey queueId (requests st))"
    and "attempts st < maxAttempts"
  shows "downloadUrl (pollLoop svc apiKey queueId st) = downloadUrl st
         \<or> pollLoop svc apiKey queueId st =
             pollLoop svc apiKey queueId
               (st\<lparr>requests := requests st + 1, attempts := attempts st + 1\<rparr>)"
  using assms
  by (auto simp: pollLoop.simps [of svc apiKey queueId st] reportsCompletion_def
      split: sum.splits option.splits)

lemma pollLoop_no_completion:
  "\<forall>i. \<not> reportsCompletion (statusFetch svc apiKey queueId i) \<Longrightarrow>
   downloadUrl (pollLoop svc apiKey queueId st) = downloadUrl st"
proof (induction "maxAttempts - attempts st" arbitrary: st)
  case 0
  then have "\<not> attempts st < maxAttempts" by simp
  then show ?case by (simp add: pollLoop.simps [of svc apiKey queueId st])
next
  case (Suc n)
  then have lt: "attempts st < maxAttempts" by simp
  let ?next = "st\<lparr>requests := requests st + 1, attempts := attempts st + 1\<rparr>"
  have n: "n = maxAttempts - attempts ?next" using Suc.hyps(2) by simp
  have ih: "downloadUrl (pollLoop svc apiKey queueId ?next) = downloadUrl st"
    using Suc.hyps(1) [OF n Suc.prems] by simp
  from Suc.prems have "\<not> reportsCompletion (statusFetch svc apiKey queueId (requests st))"
    by blast
  from pollLoop_no_completion_step [OF this lt] ih show ?case by auto
qed

lemma no_url_returns_original:
  "\<forall>queueId. downloadUrl (pollLoop svc apiKey queueId pollStart) = None \<Longrightarrow>
   skipTraceWithTracerfy svc listings apiKey = listings"
  by (auto simp: skipTraceWithTracerfy_def tryBody_def Let_def split: sum.splits option.splits)

text \<open>
  C6 (as amended). From its start the poll loop never issues more than 12 status requests
  and never counts more than 12 attempts, whatever the service answers. If no answer to a
  status request reports completion, the loop ends with no download URL and the client
  returns the original listings. If moreover every status request is answered by a
  failed status check or by a JSON payload other than \<^verbatim>\<open>null\<close>, the loop ends after
  exactly 12 attempts and 12 requests, both kinds counted alike, with no exception.
\<close>

theorem poll_stops_within_twelve_attempts:
  "requests (pollLoop svc apiKey queueId pollStart) \<le> 12
   \<and> attempts (pollLoop svc apiKey queueId pollStart) \<le> 12
   \<and> ((\<forall>i. \<not> reportsCompletion (statusFetch svc apiKey queueId i)) \<longrightarrow>
        downloadUrl (pollLoop svc apiKey queueId pollStart) = None)
   \<and> ((\<forall>q i. \<not> reportsCompletion (statusFetch svc apiKey q i)) \<longrightarrow>
        skipTraceWithTracerfy svc listings apiKey = listings)
   \<and> ((\<forall>i. countedAttempt (statusFetch svc apiKey queueId i)) \<longrightarrow>
        pollLoop svc apiKey queueId pollStart =
        \<lparr>attempts = 12, downloadUrl = None, requests = 12, thrown = None\<rparr>)"
proof (intro conjI impI)
  have "requests pollStart \<le> attempts pollStart" "attempts pollStart \<le> maxAttempts"
    by (simp_all add: pollStart_def)
  then have b: "requests (pollLoop svc apiKey queueId pollStart) \<le> maxAttempts
                \<and> attempts (pollLoop svc apiKey queueId pollStart) \<le> maxAttempts"
    by (rule pollLoop_bounds)
  from b show "requests (pollLoop svc apiKey queueId pollStart) \<le> 12"
    by (simp add: maxAttempts_def)
  from b show "attempts (pollLoop svc apiKey queueId pollStart) \<le> 12"
    by (simp add: maxAttempts_def)
next
  assume "\<forall>i. \<not> reportsCompletion (statusFetch svc apiKey queueId i)"
  then have "downloadUrl (pollLoop svc apiKey queueId pollStart) = downloadUrl pollStart"
    by (rule pollLoop_no_completion)
  then show "downloadUrl (pollLoop svc apiKey queueId pollStart) = None"
    by (simp add: pollStart_def)
next
  assume a: "\<forall>q i. \<not> reportsCompletion (statusFetch svc apiKey q i)"
  have "\<forall>q. downloadUrl (pollLoop svc apiKey q pollStart) = None"
  proof
    fix q
    from a have "\<forall>i. \<not> reportsCompletion (statusFetch svc apiKey q i)" by blast
    then have "downloadUrl (pollLoop svc apiKey q pollStart) = downloadUrl pollStart"
      by (rule pollLoop_no_completion)
    then show "downloadUrl (pollLoop svc apiKey q pollStart) = None"
      by (simp add: pollStart_def)
  qed
  then show "skipTraceWithTracerfy svc listings apiKey = listings"
    by (rule no_url_returns_original)
next
  assume "\<forall>i. countedAttempt (statusFetch svc apiKey queueId i)"
  then show "pollLoop svc apiKey queueId pollStart =
        \<lparr>attempts = 12, downloadUrl = None, requests = 12, thrown = None\<rparr>"
    by (rule pollLoop_counted_start)
qed

lemma neverDone_counted: "\<forall>q i. countedAttempt (statusFetch neverDoneService ''key'' q i)"
  by (simp add: neverDoneService_def countedAttempt_def errorResponse_def processing_def
      jsonResponse_def statusFields_def getProp_def orElse_def truthy_def)

lemma neverDone_no_completion:
  "\<forall>q i. \<not> reportsCompletion (statusFetch neverDoneService ''key'' q i)"
  by (simp add: neverDoneService_def reportsCompletion_def errorResponse_def processing_def
      jsonResponse_def statusFields_def getProp_def orElse_def truthy_def)

lemma nullStatus_no_completion:
  "\<forall>q i. \<not> reportsCompletion (statusFetch nullStatusService ''key'' q i)"
  by (simp add: nullStatusService_def reportsCompletion_def jsonResponse_def statusFields_def)

lemma unreachableStatus_no_completion:
  "\<forall>q i. \<not> reportsCompletion (statusFetch unreachableStatusService ''key'' q i)"
  by (simp add: unreachableStatusService_def reportsCompletion_def)

theorem poll_stops_within_twelve_attempts_witness:
  "(\<forall>q i. \<not> reportsCompletion (statusFetch neverDoneService ''key'' q i))
   \<and> (\<forall>q i. countedAttempt (statusFetch neverDoneService ''key'' q i))
   \<and> pollLoop neverDoneService ''key'' (Some (JNum 42)) pollStart =
        \<lparr>attempts = 12, downloadUrl = None, requests = 12, thrown = None\<rparr>
   \<and> skipTraceWithTracerfy neverDoneService [oakListing, pineListing] ''key''
       = [oakListing, pineListing]
   \<and> (\<forall>q i. \<not> reportsCompletion (statusFetch nullStatusService ''key'' q i))
   \<and> downloadUrl (pollLoop nullStatusService ''key'' (Some (JNum 42)) pollStart) = None
   \<and> skipTraceWithTracerfy nullStatusService [oakListing, pineListing] ''key''
       = [oakListing, pineListing]"
  using poll_stops_within_twelve_attempts
          [of neverDoneService "''key''" "Some (JNum 42)" "[oakListing, pineListing]"]
    poll_stops_within_twelve_attempts
          [of nullStatusService "''key''" "Some (JNum 42)" "[oakListing, pineListing]"]
    neverDone_counted neverDone_no_completion nullStatus_no_completion
  by blast

text \<open>
  C6 as stated fails where a status request throws. A status endpoint that answers every
  request with the JSON value \<^verbatim>\<open>null\<close> never reports completion, and neither does
  one whose fetch is always rejected; in both the first request throws, the loop is left
  after 1 request with 0 attempts counted, not 12.
\<close>

theorem poll_leaves_on_exception_counterexample:
  "(\<forall>q i. \<not> reportsCompletion (statusFetch nullStatusService ''key'' q i))
   \<and> pollLoop nullStatusService ''key'' (Some (JNum 42)) pollStart =
        \<lparr>attempts = 0, downloadUrl = None, requests = 1, thrown = Some TypeError\<rparr>
   \<and> (\<forall>q i. \<not> reportsCompletion (statusFetch unreachableStatusService ''key'' q i))
   \<and> pollLoop unreachableStatusService ''key'' (Some (JNum 42)) pollStart =
        \<lparr>attempts = 0, downloadUrl = None, requests = 1, thrown = Some FetchError\<rparr>
   \<and> requests (pollLoop nullStatusService ''key'' (Some (JNum 42)) pollStart) \<noteq> 12
   \<and> attempts (pollLoop nullStatusService ''key'' (Some (JNum 42)) pollStart) \<noteq> 12"
proof -
  have a: "pollLoop nullStatusService ''key'' (Some (JNum 42)) pollStart =
        \<lparr>attempts = 0, downloadUrl = None, requests = 1, thrown = Some TypeError\<rparr>"
    by code_simp
  have b: "pollLoop unreachableStatusService ''key'' (Some (JNum 42)) pollStart =
        \<lparr>attempts = 0, downloadUrl = None, requests = 1, thrown = Some FetchError\<rparr>"
    by code_simp
  from a b nullStatus_no_completion unreachableStatus_no_completion show ?thesis
    by simp
qed

text \<open>
  C7. The client returns the listings it was given when the submission is answered with a
  non-success status, when the poll loop ends with no download URL, when the download is
  answered with a non-success status, and when an exception is thrown in the \<^verbatim>\<open>try\<close>
  block: a rejected fetch of the submission, an exception out of the poll loop and a
  rejected fetch of the download all are such exceptions. The result is a list of
  listings in every case, so nothing is thrown to the caller.
\<close>

theorem skip_trace_failure_returns_original:
  "(submitFetch svc apiKey (csvContent listings) = Inr submitResponse \<and> \<not> ok submitResponse
      \<longrightarrow> skipTraceWithTracerfy svc listings apiKey = listings)
   \<and> (submitFetch svc apiKey (csvContent listings) = Inr submitResponse \<and> ok submitResponse
       \<and> bodyJson submitResponse = Some submitResult \<and> queueIdOf submitResult = Inr queueId
       \<and> downloadUrl (pollLoop svc apiKey queueId pollStart) = None
      \<longrightarrow> skipTraceWithTracerfy svc listings apiKey = listings)
   \<and> (submitFetch svc apiKey (csvContent listings) = Inr submitResponse \<and> ok submitResponse
       \<and> bodyJson submitResponse = Some submitResult \<and> queueIdOf submitResult = Inr queueId
       \<and> downloadUrl (pollLoop svc apiKey queueId pollStart) = Some url
       \<and> resultsFetch svc url = Inr resultsResponse \<and> \<not> ok resultsResponse
      \<longrightarrow> skipTraceWithTracerfy svc listings apiKey = listings)
   \<and> (tryBody svc listings apiKey = Inl e
      \<longrightarrow> skipTraceWithTracerfy svc listings apiKey = listings)
   \<and> (submitFetch svc apiKey (csvContent listings) = Inl e
      \<longrightarrow> tryBody svc listings apiKey = Inl e)
   \<and> (submitFetch svc apiKey (csvContent listings) = Inr submitResponse \<and> ok submitResponse
       \<and> bodyJson submitResponse = Some submitResult \<and> queueIdOf submitResult = Inr queueId
       \<and> thrown (pollLoop svc apiKey queueId pollStart) = Some e
      \<longrightarrow> tryBody svc listings apiKey = Inl e)
   \<and> (submitFetch svc apiKey (csvContent listings) = Inr submitResponse \<and> ok submitResponse
       \<and> bodyJson submitResponse = Some submitResult \<and> queueIdOf submitResult = Inr queueId
       \<and> thrown (pollLoop svc apiKey queueId pollStart) = None
       \<and> downloadUrl (pollLoop svc apiKey queueId pollStart) = Some url
       \<and> resultsFetch svc url = Inl e
      \<longrightarrow> tryBody svc listings apiKey = Inl e)"
  by (simp add: skipTraceWithTracerfy_def tryBody_def Let_def split: option.split)

lemma queueIdOf_queued: "queueIdOf (JObj [(''queue_id'', JNum 42)]) = Inr (Some (JNum 42))"
  by code_simp

lemma neverDone_no_url:
  "downloadUrl (pollLoop neverDoneService ''key'' (Some (JNum 42)) pollStart) = None"
  by code_simp

lemma noDownload_url:
  "downloadUrl (pollLoop noDownloadService ''key'' (Some (JNum 42)) pollStart)
   = Some (JStr ''https://tracerfy.com/r/42.csv'')"
  by code_simp

theorem skip_trace_failure_returns_original_witness:
  "submitFetch rejectingService ''key'' (csvContent [oakListing, pineListing])
     = Inr (errorResponse ''invalid api key'')
   \<and> \<not> ok (errorResponse ''invalid api key'')
   \<and> skipTraceWithTracerfy rejectingService [oakListing, pineListing] ''key''
       = [oakListing, pineListing]
   \<and> downloadUrl (pollLoop neverDoneService ''key'' (Some (JNum 42)) pollStart) = None
   \<and> skipTraceWithTracerfy neverDoneService [oakListing, pineListing] ''key''
       = [oakListing, pineListing]
   \<and> resultsFetch noDownloadService (JStr ''https://tracerfy.com/r/42.csv'')
       = Inr (errorResponse ''gone'')
   \<and> skipTraceWithTracerfy noDownloadService [oakListing, pineListing] ''key''
       = [oakListing, pineListing]
   \<and> tryBody offlineService [oakListing, pineListing] ''key'' = Inl FetchError
   \<and> skipTraceWithTracerfy offlineService [oakListing, pineListing] ''key''
       = [oakListing, pineListing]"
proof -
  let ?ls = "[oakListing, pineListing]"
  have a: "skipTraceWithTracerfy rejectingService ?ls ''key'' = ?ls"
    using skip_trace_failure_returns_original
      [of rejectingService "''key''" ?ls "errorResponse ''invalid api key''"]
    by (simp add: rejectingService_def errorResponse_def)
  have b: "skipTraceWithTracerfy neverDoneService ?ls ''key'' = ?ls"
    using skip_trace_failure_returns_original
      [of neverDoneService "''key''" ?ls "jsonResponse (JObj [(''queue_id'', JNum 42)])"
          "JObj [(''queue_id'', JNum 42)]" "Some (JNum 42)"]
      queueIdOf_queued neverDone_no_url
    by (simp add: neverDoneService_def queued_def jsonResponse_def)
  have c: "skipTraceWithTracerfy noDownloadService ?ls ''key'' = ?ls"
    using skip_trace_failure_returns_original
      [of noDownloadService "''key''" ?ls "jsonResponse (JObj [(''queue_id'', JNum 42)])"
          "JObj [(''queue_id'', JNum 42)]" "Some (JNum 42)"
          "JStr ''https://tracerfy.com/r/42.csv''" "errorResponse ''gone''"]
      queueIdOf_queued noDownload_url
    by (simp add: noDownloadService_def completingService_def queued_def jsonResponse_def
        errorResponse_def)
  have d: "tryBody offlineService ?ls ''key'' = Inl FetchError"
    using skip_trace_failure_returns_original
      [of offlineService "''key''" ?ls _ _ _ _ _ FetchError]
    by (simp add: offlineService_def)
  have e: "skipTraceWithTracerfy offlineService ?ls ''key'' = ?ls"
    using skip_trace_failure_returns_original
      [of offlineService "''key''" ?ls _ _ _ _ _ FetchError] d
    by simp
  have f: "submitFetch rejectingService ''key'' (csvContent ?ls)
           = Inr (errorResponse ''invalid api key'')"
    by (simp add: rejectingService_def)
  have g: "\<not> ok (errorResponse ''invalid api key'')"
    by (simp add: errorResponse_def)
  have h: "resultsFetch noDownloadService (JStr ''https://tracerfy.com/r/42.csv'')
           = Inr (errorResponse ''gone'')"
    by (simp add: noDownloadService_def)
  from a b c d e f g h neverDone_no_url show ?thesis by (intro conjI)
qed

lemma matchBack_nth:
  "i < length listings \<Longrightarrow>
   matchBack listings results ! i =
   (case find (addressMatches (listings ! i)) results of
      None \<Rightarrow> listings ! i
    | Some match \<Rightarrow> (listings ! i)\<lparr>owner := Some (ownerOf match)\<rparr>)"
  by (simp add: matchBack_def split: option.split)

lemma length_matchBack: "length (matchBack listings results) = length listings"
  by (simp add: matchBack_def)

lemma skipTrace_cases:
  "skipTraceWithTracerfy svc listings apiKey = listings
   \<or> (\<exists>csv. skipTraceWithTracerfy svc listings apiKey
              = matchBack listings (parseTracerfyResults csv))"
  by (auto simp: skipTraceWithTracerfy_def tryBody_def Let_def split: sum.splits option.splits)

lemma parseCSV_no_owner: "l \<in> set (parseCSV csvText) \<Longrightarrow> owner l = None"
  by (subst (asm) parseCSV_eq) (auto simp: rowNormalized_def normalized_def)

lemma scoredListings_no_owner:
  "l \<in> set (scoredListings parseDate clk fileKey (parseCSV csvText)) \<Longrightarrow> owner l = None"
  by (auto simp: scoredListings_def parseCSV_no_owner)

lemma completing_run:
  "skipTraceWithTracerfy completingService [oakListing, pineListing] ''key'' =
   [oakListing\<lparr>owner := Some \<lparr>ownerName = [], ownerPhone = ''555-0100'',
      ownerEmail = ''js@example.com'', ownerMailingAddress = ''PO Box 1''\<rparr>\<rparr>, pineListing]"
  by code_simp

lemma completing_contacts:
  "map (\<lambda>r. (r ''owner_name'', r ''first_name'', r ''last_name'', r ''mobile_1'',
              r ''landline_1''))
     (parseTracerfyResults resultsCsv)
   = [(Some ''John Smith'', Some [], Some [], Some [], Some ''555-0100'')]"
  by code_simp

text \<open>
  C10. The output of the client has one listing for each input listing, in order. An
  output listing with its owner fields put back to those of the input is the input
  listing, so every other field agrees; it is either the input listing itself or the
  input listing with owner fields set. In the match-back, a listing with no matching
  contact is returned as it is and a matched one gets the owner fields of the first
  matching contact. The listings the orchestrator passes in, parsed and scored, carry no
  owner fields, so for them the owner fields are additions.
\<close>

theorem enrichment_only_adds_owner_fields:
  "length (skipTraceWithTracerfy svc listings apiKey) = length listings
   \<and> (\<forall>i<length listings.
        (skipTraceWithTracerfy svc listings apiKey ! i)\<lparr>owner := owner (listings ! i)\<rparr>
          = listings ! i
        \<and> (skipTraceWithTracerfy svc listings apiKey ! i = listings ! i
           \<or> (\<exists>fields. skipTraceWithTracerfy svc listings apiKey ! i
                 = (listings ! i)\<lparr>owner := Some fields\<rparr>)))
   \<and> (\<forall>i<length listings.
        matchBack listings results ! i =
        (case find (addressMatches (listings ! i)) results of
           None \<Rightarrow> listings ! i
         | Some match \<Rightarrow> (listings ! i)\<lparr>owner := Some (ownerOf match)\<rparr>))
   \<and> (\<forall>l\<in>set (scoredListings parseDate clk fileKey (parseCSV csvText)). owner l = None)"
proof (intro conjI allI impI ballI)
  show "length (skipTraceWithTracerfy svc listings apiKey) = length listings"
    using skipTrace_cases [of svc listings apiKey] by (auto simp: length_matchBack)
next
  fix i assume i: "i < length listings"
  from skipTrace_cases [of svc listings apiKey]
  have alt: "skipTraceWithTracerfy svc listings apiKey ! i = listings ! i
        \<or> (\<exists>fields. skipTraceWithTracerfy svc listings apiKey ! i
               = (listings ! i)\<lparr>owner := Some fields\<rparr>)"
  proof
    assume "skipTraceWithTracerfy svc listings apiKey = listings"
    then show ?thesis by simp
  next
    assume "\<exists>csv. skipTraceWithTracerfy svc listings apiKey
              = matchBack listings (parseTracerfyResults csv)"
    then obtain csv where "skipTraceWithTracerfy svc listings apiKey
              = matchBack listings (parseTracerfyResults csv)" ..
    with i show ?thesis by (auto simp: matchBack_nth split: option.split)
  qed
  then show "skipTraceWithTracerfy svc listings apiKey ! i = listings ! i
        \<or> (\<exists>fields. skipTraceWithTracerfy svc listings apiKey ! i
               = (listings ! i)\<lparr>owner := Some fields\<rparr>)" .
  from alt show "(skipTraceWithTracerfy svc listings apiKey ! i)\<lparr>owner := owner (listings ! i)\<rparr>
          = listings ! i"
    by auto
next
  fix i assume "i < length listings"
  then show "matchBack listings results ! i =
        (case find (addressMatches (listings ! i)) results of
           None \<Rightarrow> listings ! i
         | Some match \<Rightarrow> (listings ! i)\<lparr>owner := Some (ownerOf match)\<rparr>)"
    by (rule matchBack_nth)
next
  fix l assume "l \<in> set (scoredListings parseDate clk fileKey (parseCSV csvText))"
  then show "owner l = None"
    by (rule scoredListings_no_owner)
qed

theorem enrichment_only_adds_owner_fields_witness:
  "length (skipTraceWithTracerfy completingService [oakListing, pineListing] ''key'') = 2
   \<and> skipTraceWithTracerfy completingService [oakListing, pineListing] ''key'' ! 0
       = oakListing\<lparr>owner := Some \<lparr>ownerName = [], ownerPhone = ''555-0100'',
           ownerEmail = ''js@example.com'', ownerMailingAddress = ''PO Box 1''\<rparr>\<rparr>
   \<and> (skipTraceWithTracerfy completingService [oakListing, pineListing] ''key'' ! 0)
         \<lparr>owner := owner oakListing\<rparr> = oakListing
   \<and> skipTraceWithTracerfy completingService [oakListing, pineListing] ''key'' ! 1
       = pineListing"
proof -
  let ?ls = "[oakListing, pineListing]"
  note frame = enrichment_only_adds_owner_fields
    [of completingService ?ls "''key''" "[]" sampleDateParser clock2024 "''a.csv''" threeRowCsv]
  have len: "length (skipTraceWithTracerfy completingService ?ls ''key'') = length ?ls"
    by (rule frame [THEN conjunct1])
  have "\<forall>i<length ?ls.
        (skipTraceWithTracerfy completingService ?ls ''key'' ! i)\<lparr>owner := owner (?ls ! i)\<rparr>
          = ?ls ! i"
    using frame [THEN conjunct2, THEN conjunct1] by blast
  then have restored: "(skipTraceWithTracerfy completingService ?ls ''key'' ! 0)
         \<lparr>owner := owner oakListing\<rparr> = oakListing"
    by fastforce
  from len restored show ?thesis
    by (simp add: completing_run)
qed

text \<open>
  C8: line 417 reads \<^verbatim>\<open>match.owner_name || match.first_name ? ... : ""\<close>, which
  JavaScript groups as \<^verbatim>\<open>(match.owner_name || match.first_name) ? ... : ""\<close>. The
  combined name only takes part in the test; the value is always built from the first
  and last name. A contact with the combined name John Smith and no first or last name
  gives the empty owner name, and one that has all three gives first and last name. The
  phone is the first non-empty one of mobile, landline and generic phone, and the
  unmatched listing comes back with no owner fields.
\<close>

theorem owner_name_ignores_combined_field:
  "map (\<lambda>r. (r ''owner_name'', r ''first_name'', r ''last_name'', r ''mobile_1'',
              r ''landline_1''))
     (parseTracerfyResults resultsCsv)
   = [(Some ''John Smith'', Some [], Some [], Some [], Some ''555-0100'')]
   \<and> map owner (skipTraceWithTracerfy completingService [oakListing, pineListing] ''key'')
       = [Some \<lparr>ownerName = [], ownerPhone = ''555-0100'', ownerEmail = ''js@example.com'',
                 ownerMailingAddress = ''PO Box 1''\<rparr>, None]
   \<and> ownerName (ownerOf [''owner_name'' \<mapsto> ''John Smith'', ''first_name'' \<mapsto> ''J'',
                            ''last_name'' \<mapsto> ''S'']) = ''J S''"
proof -
  have "ownerName (ownerOf [''owner_name'' \<mapsto> ''John Smith'', ''first_name'' \<mapsto> ''J'',
                            ''last_name'' \<mapsto> ''S'']) = ''J S''"
    by code_simp
  moreover have "owner pineListing = None"
    by (simp add: pineListing_def blankListing_def)
  ultimately show ?thesis
    by (simp add: completing_run completing_contacts)
qed

end
